theory Spec2Isabelle
  imports Complex_Main "HOL-Library.AList"
begin

section \<open>Data model (src/types/database.ts)\<close>

text \<open>
  The quotation manager keeps nine JSON collections and computes totals in its pages.
  A JavaScript \<open>number\<close> that holds a quantity, a price, a cost, a discount or an
  exchange rate is modelled as a \<open>real\<close>: sums, products and quotients are the exact
  ones, rounding of doubles is not modelled. A \<open>string | null\<close> field is a
  \<open>string option\<close>. Field names are the source's; where two interfaces share a field
  name the record's initials are put in front (\<open>id\<close> clashes with the identity
  function of HOL and always carries them).
\<close>

datatype BudgetType = korek_communication | ma

datatype CurrencyType = usd | iqd

datatype QuotationStatus = draft | pending | rejected | approved | invoiced

datatype DocumentType = doc_quotation | doc_invoice | doc_other

text \<open>\<open>Category\<close>, \<open>ItemType\<close>, \<open>Vendor\<close> and \<open>Recipient\<close> are four interfaces
  with the same four fields.\<close>

record Named =
  n_id :: string
  n_name :: string
  n_created_at :: string
  n_updated_at :: string

type_synonym Category = Named
type_synonym ItemType = Named
type_synonym Vendor = Named
type_synonym Recipient = Named

record ExchangeRate =
  er_id :: string
  rate :: real
  er_date :: string
  er_created_at :: string
  er_updated_at :: string

record Settings =
  s_id :: string
  company_address :: "string option"
  logo_url :: "string option"
  s_created_at :: string
  s_updated_at :: string

record QuotationItemRecord =
  i_id :: string
  i_quotation_id :: string
  i_name :: string
  i_description :: "string option"
  quantity :: real
  type_id :: "string option"
  category_id :: "string option"
  unit_price :: real
  price :: real
  total_price :: real
  i_created_at :: string
  i_updated_at :: string

record Quotation =
  q_id :: string
  quotation_number :: string
  project_name :: string
  date :: string
  validity_date :: string
  budget_type :: BudgetType
  recipient :: string
  currency_type :: CurrencyType
  vendor_id :: "string option"
  vendor_cost :: real
  vendor_currency_type :: CurrencyType
  discount :: real
  q_note :: "string option"
  description :: "string option"
  status :: QuotationStatus
  created_at :: string
  updated_at :: string

record VendorDocument =
  d_id :: string
  d_quotation_id :: string
  file_name :: string
  file_path :: string
  file_size :: real
  file_type :: string
  document_type :: DocumentType
  d_created_at :: string
  d_updated_at :: string

text \<open>\<open>interface QuotationWithItems extends Quotation\<close>.\<close>

record QuotationWithItems = Quotation +
  quotation_items :: "QuotationItemRecord list"
  vendor :: "Vendor option"
  vendor_documents :: "VendorDocument list"


section \<open>The item rows of the quotation form (src/pages/quotations/New.tsx)\<close>

text \<open>The form keeps its own \<open>interface QuotationItem\<close>; its fields carry \<open>f_\<close>.\<close>

record QuotationItem =
  f_id :: string
  f_name :: string
  f_description :: string
  f_quantity :: real
  f_type_id :: "string option"
  f_unit_price :: real
  f_price :: real
  f_total_price :: real

text \<open>\<open>updateItem(id, field, value)\<close> takes a key of \<open>QuotationItem\<close> and a value of
  unknown type; a key together with a value of the field's type is one constructor.\<close>

datatype ItemField =
    Set_id string
  | Set_name string
  | Set_description string
  | Set_quantity real
  | Set_type_id "string option"
  | Set_unit_price real
  | Set_price real
  | Set_total_price real

text \<open>\<open>addItem\<close>: the new row gets the identifier drawn by \<open>crypto.randomUUID()\<close>,
  here the argument \<open>uuid\<close>.\<close>

definition addItem :: "string \<Rightarrow> QuotationItem list \<Rightarrow> QuotationItem list" where
  "addItem uuid items =
     items @ [\<lparr>f_id = uuid, f_name = [], f_description = [], f_quantity = 1,
               f_type_id = None, f_unit_price = 0, f_price = 0, f_total_price = 0\<rparr>]"

text \<open>\<open>{ ...item, [field]: value }\<close>.\<close>

fun assignField :: "QuotationItem \<Rightarrow> ItemField \<Rightarrow> QuotationItem" where
  "assignField item (Set_id v) = item\<lparr>f_id := v\<rparr>"
| "assignField item (Set_name v) = item\<lparr>f_name := v\<rparr>"
| "assignField item (Set_description v) = item\<lparr>f_description := v\<rparr>"
| "assignField item (Set_quantity v) = item\<lparr>f_quantity := v\<rparr>"
| "assignField item (Set_type_id v) = item\<lparr>f_type_id := v\<rparr>"
| "assignField item (Set_unit_price v) = item\<lparr>f_unit_price := v\<rparr>"
| "assignField item (Set_price v) = item\<lparr>f_price := v\<rparr>"
| "assignField item (Set_total_price v) = item\<lparr>f_total_price := v\<rparr>"

fun recalculates :: "ItemField \<Rightarrow> bool" where
  "recalculates (Set_quantity v) = True"
| "recalculates (Set_unit_price v) = True"
| "recalculates fld = False"

text \<open>The fields that the inputs of the form pass to \<open>updateItem\<close>: the name, the
  type, the quantity and the unit price.\<close>

fun formField :: "ItemField \<Rightarrow> bool" where
  "formField (Set_name v) = True"
| "formField (Set_type_id v) = True"
| "formField (Set_quantity v) = True"
| "formField (Set_unit_price v) = True"
| "formField fld = False"

definition updateRow :: "string \<Rightarrow> ItemField \<Rightarrow> QuotationItem \<Rightarrow> QuotationItem" where
  "updateRow ident fld item =
     (if f_id item \<noteq> ident then item
      else let updated = assignField item fld in
        if recalculates fld
        then let updated1 = updated\<lparr>f_price := f_quantity updated * f_unit_price updated\<rparr>
             in updated1\<lparr>f_total_price := f_price updated1\<rparr>
        else updated)"

definition updateItem :: "string \<Rightarrow> ItemField \<Rightarrow> QuotationItem list \<Rightarrow> QuotationItem list" where
  "updateItem ident fld items = map (updateRow ident fld) items"

definition removeItem :: "string \<Rightarrow> QuotationItem list \<Rightarrow> QuotationItem list" where
  "removeItem ident items = filter (\<lambda>item. f_id item \<noteq> ident) items"

text \<open>The invariant of an item row.\<close>

definition priced :: "QuotationItem \<Rightarrow> bool" where
  "priced item \<longleftrightarrow>
     f_price item = f_quantity item * f_unit_price item \<and> f_total_price item = f_price item"

text \<open>\<open>total\<close> and \<open>finalTotal\<close> of the form: \<open>items.reduce((sum, item) => sum +
  item.total_price, 0)\<close> and \<open>total - discount\<close>.\<close>

definition total :: "QuotationItem list \<Rightarrow> real" where
  "total items = foldl (\<lambda>sum item. sum + f_total_price item) 0 items"

definition finalTotal :: "QuotationItem list \<Rightarrow> real \<Rightarrow> real" where
  "finalTotal items discount_input = total items - discount_input"


section \<open>The quotation page (src/pages/quotations/New.tsx, lines 703 to 706)\<close>

text \<open>The page that shows one stored quotation computes its own totals.
  \<open>Number(x)\<close> of a number is \<open>x\<close>, and \<open>x || 0\<close> of a number is \<open>x\<close>.\<close>

definition subtotal :: "'a QuotationWithItems_scheme \<Rightarrow> real" where
  "subtotal quotation =
     foldl (\<lambda>sum item. sum + total_price item) 0 (quotation_items quotation)"

definition discountAmount :: "'a QuotationWithItems_scheme \<Rightarrow> real" where
  "discountAmount quotation = (subtotal quotation * discount quotation) / 100"

definition page_total :: "'a QuotationWithItems_scheme \<Rightarrow> real" where
  "page_total quotation = subtotal quotation - discountAmount quotation"


section \<open>Strings and numbers of JavaScript used by the number generator\<close>














section \<open>The JSON store (src/lib/storage.ts)\<close>

text \<open>
  \<open>readData(file)\<close> returns the array kept under \<open>file\<close> and \<open>writeData(file, data)\<close>
  replaces it: the store is a record with one field for each of the nine files, a read
  is the field and a write is its update. This is the \<open>localStorage\<close> branch, where a
  write always succeeds; a failing disk is outside the model. \<open>generateId()\<close> and
  \<open>now()\<close> are drawn from the environment: every function that calls them takes
  their results as arguments.\<close>

record Store =
  quotations_json :: "Quotation list"
  quotation_items_json :: "QuotationItemRecord list"
  vendors_json :: "Vendor list"
  recipients_json :: "Recipient list"
  categories_json :: "Category list"
  item_types_json :: "ItemType list"
  exchange_rates_json :: "ExchangeRate list"
  settings_json :: "Settings list"
  vendor_documents_json :: "VendorDocument list"

text \<open>\<open>getQuotations\<close>: every quotation with its items, its vendor and its documents.\<close>

definition getQuotations :: "Store \<Rightarrow> QuotationWithItems list" where
  "getQuotations st =
     (let quotations = quotations_json st;
          items = quotation_items_json st;
          vendors = vendors_json st;
          documents = vendor_documents_json st
      in map (\<lambda>q. Quotation.extend q
            (QuotationWithItems.fields
               (filter (\<lambda>i. i_quotation_id i = q_id q) items)
               (find (\<lambda>v. Some (n_id v) = vendor_id q) vendors)
               (filter (\<lambda>d. d_quotation_id d = q_id q) documents)))
          quotations)"

text \<open>\<open>deleteQuotation(id)\<close>; the result is the returned boolean and the store.\<close>

definition deleteQuotation :: "string \<Rightarrow> Store \<Rightarrow> bool \<times> Store" where
  "deleteQuotation ident st =
     (let quotations = quotations_json st;
          filtered = filter (\<lambda>q. q_id q \<noteq> ident) quotations
      in if length filtered = length quotations then (False, st)
         else let st1 = st\<lparr>quotations_json := filtered\<rparr>;
                  items = quotation_items_json st1;
                  filteredItems = filter (\<lambda>i. i_quotation_id i \<noteq> ident) items
              in (True, st1\<lparr>quotation_items_json := filteredItems\<rparr>))"

text \<open>The four creators of the lookup entities. \<open>uuid\<close> is the result of
  \<open>generateId()\<close>, \<open>t1\<close> and \<open>t2\<close> are the two results of \<open>now()\<close>.
  \<open>toLowerCase\<close> is the method of JavaScript strings, which lowers every cased letter
  of Unicode: it is the first argument of each creator, so that what is proved of them
  holds of the lowering function of the engine, whatever it does to a string.\<close>

definition createVendor ::
  "(string \<Rightarrow> string) \<Rightarrow> string \<Rightarrow> string \<Rightarrow> string \<Rightarrow> string \<Rightarrow> Store \<Rightarrow> Vendor \<times> Store" where
  "createVendor toLowerCase uuid t1 t2 name st =
     (let vendors = vendors_json st in
      case find (\<lambda>v. toLowerCase (n_name v) = toLowerCase name) vendors of
        Some existing \<Rightarrow> (existing, st)
      | None \<Rightarrow>
          let newVendor = \<lparr>n_id = uuid, n_name = name, n_created_at = t1, n_updated_at = t2\<rparr>
          in (newVendor, st\<lparr>vendors_json := vendors @ [newVendor]\<rparr>))"

definition createRecipient ::
  "(string \<Rightarrow> string) \<Rightarrow> string \<Rightarrow> string \<Rightarrow> string \<Rightarrow> string \<Rightarrow> Store \<Rightarrow> Recipient \<times> Store" where
  "createRecipient toLowerCase uuid t1 t2 name st =
     (let recipients = recipients_json st in
      case find (\<lambda>r. toLowerCase (n_name r) = toLowerCase name) recipients of
        Some existing \<Rightarrow> (existing, st)
      | None \<Rightarrow>
          let newRecipient = \<lparr>n_id = uuid, n_name = name, n_created_at = t1, n_updated_at = t2\<rparr>
          in (newRecipient, st\<lparr>recipients_json := recipients @ [newRecipient]\<rparr>))"

definition createCategory ::
  "(string \<Rightarrow> string) \<Rightarrow> string \<Rightarrow> string \<Rightarrow> string \<Rightarrow> string \<Rightarrow> Store \<Rightarrow> Category \<times> Store" where
  "createCategory toLowerCase uuid t1 t2 name st =
     (let categories = categories_json st in
      case find (\<lambda>c. toLowerCase (n_name c) = toLowerCase name) categories of
        Some existing \<Rightarrow> (existing, st)
      | None \<Rightarrow>
          let newCategory = \<lparr>n_id = uuid, n_name = name, n_created_at = t1, n_updated_at = t2\<rparr>
          in (newCategory, st\<lparr>categories_json := categories @ [newCategory]\<rparr>))"

definition createItemType ::
  "(string \<Rightarrow> string) \<Rightarrow> string \<Rightarrow> string \<Rightarrow> string \<Rightarrow> string \<Rightarrow> Store \<Rightarrow> ItemType \<times> Store" where
  "createItemType toLowerCase uuid t1 t2 name st =
     (let itemTypes = item_types_json st in
      case find (\<lambda>t. toLowerCase (n_name t) = toLowerCase name) itemTypes of
        Some existing \<Rightarrow> (existing, st)
      | None \<Rightarrow>
          let newItemType = \<lparr>n_id = uuid, n_name = name, n_created_at = t1, n_updated_at = t2\<rparr>
          in (newItemType, st\<lparr>item_types_json := itemTypes @ [newItemType]\<rparr>))"

text \<open>\<open>getLatestExchangeRate\<close>: the rates sorted by \<open>new Date(date).getTime()\<close>,
  latest first, by the stable sort of \<open>Array.prototype.sort\<close>; the first one is
  returned, \<open>None\<close> is \<open>null\<close>. \<open>getTime\<close> is the time value of a date string.\<close>

definition getLatestExchangeRate :: "(string \<Rightarrow> int) \<Rightarrow> Store \<Rightarrow> ExchangeRate option" where
  "getLatestExchangeRate getTime st =
     (let rates = exchange_rates_json st
      in if length rates = 0 then None
         else Some (hd (sort_key (\<lambda>r. - getTime (er_date r)) rates)))"

text \<open>The bundle of \<open>exportAllData\<close> and \<open>importData\<close>. A bundle that is imported comes
  from a file the user picked, so a key can be missing (or \<open>null\<close>): each collection
  is optional in the model, \<open>None\<close> when the key is absent. An array, also the empty
  one, is truthy in JavaScript.\<close>

record ExportData =
  x_quotations :: "Quotation list option"
  x_quotation_items :: "QuotationItemRecord list option"
  x_vendors :: "Vendor list option"
  x_recipients :: "Recipient list option"
  x_categories :: "Category list option"
  x_item_types :: "ItemType list option"
  x_exchange_rates :: "ExchangeRate list option"
  x_settings :: "Settings list option"
  x_vendor_documents :: "VendorDocument list option"
  exported_at :: string
  version :: string

record ImportResult =
  success :: bool
  message :: string

text \<open>\<open>exportAllData\<close> reads eight files; \<open>vendor_documents.json\<close> is not among them
  and the bundle gets no \<open>vendor_documents\<close> key. \<open>t\<close> is the result of \<open>now()\<close>.\<close>

definition exportAllData :: "string \<Rightarrow> Store \<Rightarrow> ExportData" where
  "exportAllData t st =
     \<lparr>x_quotations = Some (quotations_json st),
      x_quotation_items = Some (quotation_items_json st),
      x_vendors = Some (vendors_json st),
      x_recipients = Some (recipients_json st),
      x_categories = Some (categories_json st),
      x_item_types = Some (item_types_json st),
      x_exchange_rates = Some (exchange_rates_json st),
      x_settings = Some (settings_json st),
      x_vendor_documents = None,
      exported_at = t,
      version = ''1.0.0''\<rparr>"

text \<open>\<open>importData\<close>: the check of the seven keys, then eight writes. No write throws
  (\<open>writeData\<close> catches its own errors), so the \<open>catch\<close> branch of \<open>importData\<close> is
  never taken.\<close>

definition importData :: "ExportData \<Rightarrow> Store \<Rightarrow> ImportResult \<times> Store" where
  "importData data st =
     (if x_quotations data = None \<or> x_quotation_items data = None \<or> x_vendors data = None
         \<or> x_recipients data = None \<or> x_categories data = None \<or> x_item_types data = None
         \<or> x_exchange_rates data = None
      then (\<lparr>success = False, message = ''Invalid data format''\<rparr>, st)
      else (\<lparr>success = True, message = ''Data imported successfully''\<rparr>,
            st\<lparr>quotations_json := the (x_quotations data),
               quotation_items_json := the (x_quotation_items data),
               vendors_json := the (x_vendors data),
               recipients_json := the (x_recipients data),
               categories_json := the (x_categories data),
               item_types_json := the (x_item_types data),
               exchange_rates_json := the (x_exchange_rates data),
               settings_json := (case x_settings data of Some s \<Rightarrow> s | None \<Rightarrow> [])\<rparr>))"








section \<open>The dashboard (src/unnamed/part_006)\<close>

text \<open>\<open>exchangeRateData?.rate || 1\<close>: no record, or a rate of \<open>0\<close>, gives \<open>1\<close>.\<close>

definition exchangeRate :: "ExchangeRate option \<Rightarrow> real" where
  "exchangeRate exchangeRateData =
     (case exchangeRateData of
        None \<Rightarrow> 1
      | Some r \<Rightarrow> if rate r = 0 then 1 else rate r)"

definition invoicedQuotations :: "QuotationWithItems list \<Rightarrow> QuotationWithItems list" where
  "invoicedQuotations quotations = filter (\<lambda>q. status q = invoiced) quotations"

text \<open>The function given to \<open>reduce\<close>.\<close>

definition addProfit :: "real \<Rightarrow> real \<Rightarrow> QuotationWithItems \<Rightarrow> real" where
  "addProfit xrate psum quote =
     (let itemsTotal = foldl (\<lambda>itemSum item. itemSum + total_price item) 0
                         (quotation_items quote);
          finalTotal = itemsTotal - discount quote;
          vendorCostInIQD = (if vendor_currency_type quote = usd
                             then vendor_cost quote * xrate else vendor_cost quote);
          finalTotalInIQD = (if currency_type quote = usd
                             then finalTotal * xrate else finalTotal)
      in psum + (finalTotalInIQD - vendorCostInIQD))"

definition totalProfit :: "ExchangeRate option \<Rightarrow> QuotationWithItems list \<Rightarrow> real" where
  "totalProfit exchangeRateData quotations =
     foldl (addProfit (exchangeRate exchangeRateData)) 0 (invoicedQuotations quotations)"

text \<open>The dashboard as the application runs it: both queries read the store.\<close>

definition dashboardProfit :: "(string \<Rightarrow> int) \<Rightarrow> Store \<Rightarrow> real" where
  "dashboardProfit getTime st =
     totalProfit (getLatestExchangeRate getTime st) (getQuotations st)"

text \<open>What the profit rule says, in its own words: an amount in USD is multiplied by
  the rate, an amount in IQD is taken as it is; the profit of a quotation is its net
  total less its vendor cost, both in IQD.\<close>

definition toIQD :: "real \<Rightarrow> CurrencyType \<Rightarrow> real \<Rightarrow> real" where
  "toIQD r c amount = (case c of usd \<Rightarrow> amount * r | iqd \<Rightarrow> amount)"

definition netTotal :: "QuotationWithItems \<Rightarrow> real" where
  "netTotal q = sum_list (map total_price (quotation_items q)) - discount q"

definition profit :: "real \<Rightarrow> QuotationWithItems \<Rightarrow> real" where
  "profit r q = toIQD r (currency_type q) (netTotal q)
                - toIQD r (vendor_currency_type q) (vendor_cost q)"


section \<open>The report by item type (src/unnamed/part_005)\<close>













section \<open>Sample data\<close>

definition exampleRow :: QuotationItem where
  "exampleRow = \<lparr>f_id = ''a'', f_name = ''cable'', f_description = [], f_quantity = 1,
       f_type_id = None, f_unit_price = 100, f_price = 100, f_total_price = 100\<rparr>"

text \<open>A quotation in USD, invoiced, with three items of quantities 2, 1, 3 and unit
  prices 100, 50, 20, a discount of 10, a vendor cost of 100 USD and one vendor
  document.\<close>

definition exampleQuotation :: Quotation where
  "exampleQuotation =
     \<lparr>q_id = ''q1'', quotation_number = ''QT-2026-0007'', project_name = ''Tower'',
      date = ''2026-03-01'', validity_date = ''2026-03-31'', budget_type = ma,
      recipient = ''Korek'', currency_type = usd, vendor_id = None, vendor_cost = 100,
      vendor_currency_type = usd, discount = 10, q_note = None, description = None,
      status = invoiced, created_at = ''c'', updated_at = ''u''\<rparr>"

definition exampleItem :: "string \<Rightarrow> real \<Rightarrow> real \<Rightarrow> string option \<Rightarrow> QuotationItemRecord" where
  "exampleItem ident qty unit ty =
     \<lparr>i_id = ident, i_quotation_id = ''q1'', i_name = ''item'', i_description = None,
      quantity = qty, type_id = ty, category_id = None, unit_price = unit,
      price = qty * unit, total_price = qty * unit,
      i_created_at = ''c'', i_updated_at = ''u''\<rparr>"

definition exampleDocument :: VendorDocument where
  "exampleDocument =
     \<lparr>d_id = ''d1'', d_quotation_id = ''q1'', file_name = ''offer.pdf'',
      file_path = ''/docs/q1/offer.pdf'', file_size = 2048, file_type = ''pdf'',
      document_type = doc_quotation, d_created_at = ''c'', d_updated_at = ''u''\<rparr>"

definition exampleRate :: ExchangeRate where
  "exampleRate = \<lparr>er_id = ''r1'', rate = 1500, er_date = ''2024-06-01'',
                   er_created_at = ''c'', er_updated_at = ''u''\<rparr>"

definition exampleStore :: Store where
  "exampleStore =
     \<lparr>quotations_json = [exampleQuotation],
      quotation_items_json =
        [exampleItem ''i1'' 2 100 (Some ''t1''), exampleItem ''i2'' 1 50 None,
         exampleItem ''i3'' 3 20 (Some ''t1'')],
      vendors_json = [\<lparr>n_id = ''v1'', n_name = ''Acme'', n_created_at = ''c'', n_updated_at = ''u''\<rparr>],
      recipients_json = [],
      categories_json = [],
      item_types_json = [\<lparr>n_id = ''t1'', n_name = ''Hardware'', n_created_at = ''c'', n_updated_at = ''u''\<rparr>],
      exchange_rates_json = [exampleRate],
      settings_json = [],
      vendor_documents_json = [exampleDocument]\<rparr>"


text \<open>The same three items as rows of the form.\<close>

definition exampleRows :: "QuotationItem list" where
  "exampleRows =
     [\<lparr>f_id = ''a'', f_name = ''x'', f_description = [], f_quantity = 2, f_type_id = None,
       f_unit_price = 100, f_price = 200, f_total_price = 200\<rparr>,
      \<lparr>f_id = ''b'', f_name = ''y'', f_description = [], f_quantity = 1, f_type_id = None,
       f_unit_price = 50, f_price = 50, f_total_price = 50\<rparr>,
      \<lparr>f_id = ''c'', f_name = ''z'', f_description = [], f_quantity = 3, f_type_id = None,
       f_unit_price = 20, f_price = 60, f_total_price = 60\<rparr>]"

text \<open>A bundle with the seven mandatory keys and neither \<open>settings\<close> nor
  \<open>vendor_documents\<close>.\<close>

definition exampleBundle :: ExportData where
  "exampleBundle =
     \<lparr>x_quotations = Some [], x_quotation_items = Some [], x_vendors = Some [],
      x_recipients = Some [], x_categories = Some [], x_item_types = Some [],
      x_exchange_rates = Some [], x_settings = None, x_vendor_documents = None,
      exported_at = ''2026-01-01T00:00:00.000Z'', version = ''1.0.0''\<rparr>"

text \<open>A lowering function for the examples: it lowers the letters A to Z and leaves
  every other character as it is, which is what \<open>toLowerCase\<close> does to a string of
  ASCII characters. The names of the examples are such strings.\<close>

definition asciiLowerChar :: "char \<Rightarrow> char" where
  "asciiLowerChar c =
     (if (65::nat) \<le> of_char c \<and> of_char c \<le> (90::nat) then char_of (of_char c + (32::nat))
      else c)"

definition asciiLower :: "string \<Rightarrow> string" where
  "asciiLower s = map asciiLowerChar s"


section \<open>Notions used in the statements\<close>

text \<open>The check that \<open>importData\<close> makes before it writes: the seven keys are there.\<close>

definition complete :: "ExportData \<Rightarrow> bool" where
  "complete data \<longleftrightarrow>
     x_quotations data \<noteq> None \<and> x_quotation_items data \<noteq> None \<and> x_vendors data \<noteq> None \<and>
     x_recipients data \<noteq> None \<and> x_categories data \<noteq> None \<and> x_item_types data \<noteq> None \<and>
     x_exchange_rates data \<noteq> None"

text \<open>A record of the collection has the name, compared as the creators compare it,
  through the lowering function.\<close>

definition named :: "(string \<Rightarrow> string) \<Rightarrow> string \<Rightarrow> Named list \<Rightarrow> bool" where
  "named toLowerCase name xs \<longleftrightarrow> (\<exists>x \<in> set xs. toLowerCase (n_name x) = toLowerCase name)"





section \<open>Properties of the form, the store and the pages\<close>

subsection \<open>Item rows\<close>

lemma priced_updateRow:
  "recalculates fld \<Longrightarrow> f_id item = ident \<Longrightarrow> priced (updateRow ident fld item)"
  by (cases fld) (simp_all add: updateRow_def priced_def Let_def)

lemma priced_updateRow_form:
  "formField fld \<Longrightarrow> priced item \<Longrightarrow> priced (updateRow ident fld item)"
  by (cases fld) (simp_all add: updateRow_def priced_def Let_def)

lemma updateRow_other: "f_id item \<noteq> ident \<Longrightarrow> updateRow ident fld item = item"
  by (simp add: updateRow_def)

lemma updateRow_id:
  "recalculates fld \<Longrightarrow> f_id (updateRow ident fld item) = f_id item"
  by (cases fld) (simp_all add: updateRow_def Let_def)

text \<open>
  C1. The row made by \<open>addItem\<close> has \<open>price = quantity * unit_price\<close> and
  \<open>total_price = price\<close>. After \<open>updateItem\<close> on the field \<open>quantity\<close> or
  \<open>unit_price\<close>, every row with the updated identifier has them too, whatever it
  held before. If all rows had them before, all rows have them after every update the
  form makes, after \<open>addItem\<close> and after \<open>removeItem\<close>. The form that edits a stored
  quotation has the same \<open>addItem\<close>, \<open>updateItem\<close> and \<open>removeItem\<close>.
\<close>

theorem item_price_invariant:
  "priced (last (addItem uuid items)) \<and>
   (recalculates fld \<longrightarrow>
      (\<forall>item \<in> set (updateItem ident fld items). f_id item = ident \<longrightarrow> priced item)) \<and>
   (formField fld \<and> (\<forall>item \<in> set items. priced item) \<longrightarrow>
      (\<forall>item \<in> set (updateItem ident fld items). priced item)) \<and>
   ((\<forall>item \<in> set items. priced item) \<longrightarrow>
      (\<forall>item \<in> set (addItem uuid items). priced item)
      \<and> (\<forall>item \<in> set (removeItem ident items). priced item))"
proof (intro conjI impI ballI)
  show "priced (last (addItem uuid items))"
    by (simp add: addItem_def priced_def)
next
  fix item
  assume r: "recalculates fld" and m: "item \<in> set (updateItem ident fld items)"
    and i: "f_id item = ident"
  from m obtain old where o: "old \<in> set items" and e: "item = updateRow ident fld old"
    by (auto simp: updateItem_def)
  from i e r have "f_id old = ident" by (simp add: updateRow_id)
  with r e show "priced item" by (simp add: priced_updateRow)
next
  fix item
  assume a: "formField fld \<and> (\<forall>item \<in> set items. priced item)"
    and m: "item \<in> set (updateItem ident fld items)"
  from m obtain old where o: "old \<in> set items" and e: "item = updateRow ident fld old"
    by (auto simp: updateItem_def)
  with a show "priced item" by (simp add: priced_updateRow_form)
next
  fix item
  assume "\<forall>item \<in> set items. priced item" and "item \<in> set (addItem uuid items)"
  then show "priced item" by (auto simp: addItem_def priced_def)
next
  fix item
  assume "\<forall>item \<in> set items. priced item" and "item \<in> set (removeItem ident items)"
  then show "priced item" by (simp add: removeItem_def)
qed

theorem item_price_invariant_witness:
  "recalculates (Set_quantity 2) \<and> formField (Set_quantity 2) \<and> priced exampleRow \<and>
   updateItem ''a'' (Set_quantity 2) [exampleRow] =
     [exampleRow\<lparr>f_quantity := 2, f_price := 200, f_total_price := 200\<rparr>] \<and>
   priced (hd (updateItem ''a'' (Set_quantity 2) [exampleRow]))"
  using item_price_invariant [of "''b''" "[exampleRow]" "Set_quantity 2" "''a''"]
  by (simp add: exampleRow_def priced_def updateItem_def updateRow_def Let_def)

subsection \<open>Deleting a quotation\<close>

lemma length_filter_eq_iff: "length (filter P xs) = length xs \<longleftrightarrow> (\<forall>x \<in> set xs. P x)"
proof
  assume "length (filter P xs) = length xs"
  then show "\<forall>x \<in> set xs. P x"
    by (metis filter_id_conv length_filter_less less_irrefl)
next
  assume "\<forall>x \<in> set xs. P x"
  then show "length (filter P xs) = length xs" by simp
qed

lemma getQuotations_ids: "map q_id (getQuotations st) = map q_id (quotations_json st)"
  by (simp add: getQuotations_def Let_def Quotation.defs comp_def)

text \<open>
  C5. When a quotation with the identifier is in the store, \<open>deleteQuotation\<close>
  returns \<open>true\<close>, the quotations left are those with another identifier, the items
  left are those of another quotation, the listing of \<open>getQuotations\<close> has no
  quotation with that identifier, and the vendor documents are what they were. When no
  quotation has the identifier, it returns \<open>false\<close> and the store is unchanged.
\<close>

theorem deleteQuotation_cascade:
  "((\<exists>q \<in> set (quotations_json st). q_id q = ident) \<longrightarrow>
      fst (deleteQuotation ident st) = True \<and>
      quotations_json (snd (deleteQuotation ident st))
        = filter (\<lambda>q. q_id q \<noteq> ident) (quotations_json st) \<and>
      quotation_items_json (snd (deleteQuotation ident st))
        = filter (\<lambda>i. i_quotation_id i \<noteq> ident) (quotation_items_json st) \<and>
      (\<forall>q \<in> set (quotations_json (snd (deleteQuotation ident st))). q_id q \<noteq> ident) \<and>
      (\<forall>q \<in> set (getQuotations (snd (deleteQuotation ident st))). q_id q \<noteq> ident) \<and>
      (\<forall>i \<in> set (quotation_items_json (snd (deleteQuotation ident st))).
          i_quotation_id i \<noteq> ident) \<and>
      vendor_documents_json (snd (deleteQuotation ident st)) = vendor_documents_json st) \<and>
   ((\<forall>q \<in> set (quotations_json st). q_id q \<noteq> ident) \<longrightarrow>
      deleteQuotation ident st = (False, st))"
proof (intro conjI impI)
  assume "\<forall>q \<in> set (quotations_json st). q_id q \<noteq> ident"
  then show "deleteQuotation ident st = (False, st)"
    by (simp add: deleteQuotation_def Let_def)
next
  assume ex: "\<exists>q \<in> set (quotations_json st). q_id q = ident"
  then have ne: "length (filter (\<lambda>q. q_id q \<noteq> ident) (quotations_json st))
                   \<noteq> length (quotations_json st)"
    by (simp add: length_filter_eq_iff)
  then have d: "deleteQuotation ident st =
      (True, st\<lparr>quotations_json := filter (\<lambda>q. q_id q \<noteq> ident) (quotations_json st),
               quotation_items_json :=
                 filter (\<lambda>i. i_quotation_id i \<noteq> ident) (quotation_items_json st)\<rparr>)"
    by (simp add: deleteQuotation_def Let_def)
  show "fst (deleteQuotation ident st) = True" by (simp add: d)
  show "quotations_json (snd (deleteQuotation ident st))
        = filter (\<lambda>q. q_id q \<noteq> ident) (quotations_json st)" by (simp add: d)
  show "quotation_items_json (snd (deleteQuotation ident st))
        = filter (\<lambda>i. i_quotation_id i \<noteq> ident) (quotation_items_json st)" by (simp add: d)
  show "\<forall>q \<in> set (quotations_json (snd (deleteQuotation ident st))). q_id q \<noteq> ident"
    by (simp add: d)
  show "\<forall>i \<in> set (quotation_items_json (snd (deleteQuotation ident st))).
          i_quotation_id i \<noteq> ident" by (simp add: d)
  show "vendor_documents_json (snd (deleteQuotation ident st)) = vendor_documents_json st"
    by (simp add: d)
  have "ident \<notin> set (map q_id (getQuotations (snd (deleteQuotation ident st))))"
    unfolding getQuotations_ids by (auto simp: d)
  then show "\<forall>q \<in> set (getQuotations (snd (deleteQuotation ident st))). q_id q \<noteq> ident"
    by auto
qed

lemmas example_defs = exampleStore_def exampleQuotation_def exampleItem_def
  exampleDocument_def exampleRate_def


lemma getQuotations_example:
  "getQuotations exampleStore =
     [Quotation.extend exampleQuotation
        (QuotationWithItems.fields
           [exampleItem ''i1'' 2 100 (Some ''t1''), exampleItem ''i2'' 1 50 None,
            exampleItem ''i3'' 3 20 (Some ''t1'')] None [exampleDocument])]"
  by (simp add: getQuotations_def Let_def example_defs)

theorem deleteQuotation_cascade_witness:
  "(\<exists>q \<in> set (quotations_json exampleStore). q_id q = ''q1'') \<and>
   deleteQuotation ''q1'' exampleStore =
     (True, exampleStore\<lparr>quotations_json := [], quotation_items_json := []\<rparr>) \<and>
   vendor_documents_json (snd (deleteQuotation ''q1'' exampleStore)) = [exampleDocument] \<and>
   ''q2'' \<notin> q_id ` set (quotations_json exampleStore) \<and>
   deleteQuotation ''q2'' exampleStore = (False, exampleStore)"
  using deleteQuotation_cascade [of exampleStore "''q1''"]
    deleteQuotation_cascade [of exampleStore "''q2''"]
  by (simp add: deleteQuotation_def Let_def example_defs)

subsection \<open>Export and import\<close>

text \<open>
  C4. Importing the bundle that \<open>exportAllData\<close> made of a store into that store
  succeeds and leaves the store as it was: every collection is the same list of
  records, so the same set of identifiers. Imported into any other store, the bundle
  brings back the eight exported collections; the vendor documents are those of the
  store it is imported into.
\<close>

theorem export_import_roundtrip:
  "importData (exportAllData t st) st
     = (\<lparr>success = True, message = ''Data imported successfully''\<rparr>, st) \<and>
   snd (importData (exportAllData t st) other)
     = st\<lparr>vendor_documents_json := vendor_documents_json other\<rparr>"
  by (cases st; cases other) (simp add: importData_def exportAllData_def)

lemma importData_incomplete:
  "\<not> complete data \<Longrightarrow>
   importData data st = (\<lparr>success = False, message = ''Invalid data format''\<rparr>, st)"
  unfolding complete_def importData_def by (simp only: de_Morgan_conj not_not if_True)

lemma importData_complete:
  "complete data \<Longrightarrow>
   importData data st =
     (\<lparr>success = True, message = ''Data imported successfully''\<rparr>,
      st\<lparr>quotations_json := the (x_quotations data),
         quotation_items_json := the (x_quotation_items data),
         vendors_json := the (x_vendors data),
         recipients_json := the (x_recipients data),
         categories_json := the (x_categories data),
         item_types_json := the (x_item_types data),
         exchange_rates_json := the (x_exchange_rates data),
         settings_json := (case x_settings data of Some s \<Rightarrow> s | None \<Rightarrow> [])\<rparr>)"
  unfolding complete_def importData_def by simp

text \<open>
  C9, as the code has it. \<open>importData\<close> succeeds exactly when the seven mandatory keys
  are present. When one is missing the result is the failure with the message
  \<open>Invalid data format\<close> and the store is unchanged. When they are all present the
  seven collections are replaced by the bundle's, and the settings by the bundle's
  settings, or by the empty list when the bundle has none. The vendor documents are
  never written: the collection stays what it was, whatever the bundle holds.
\<close>

theorem importData_validation:
  "(success (fst (importData data st)) \<longleftrightarrow> complete data) \<and>
   (\<not> complete data \<longrightarrow>
      importData data st = (\<lparr>success = False, message = ''Invalid data format''\<rparr>, st)) \<and>
   (complete data \<longrightarrow>
      (x_settings data = None \<longrightarrow> settings_json (snd (importData data st)) = []) \<and>
      (\<forall>s. x_settings data = Some s \<longrightarrow> settings_json (snd (importData data st)) = s) \<and>
      Some (quotations_json (snd (importData data st))) = x_quotations data \<and>
      Some (quotation_items_json (snd (importData data st))) = x_quotation_items data \<and>
      Some (vendors_json (snd (importData data st))) = x_vendors data \<and>
      Some (recipients_json (snd (importData data st))) = x_recipients data \<and>
      Some (categories_json (snd (importData data st))) = x_categories data \<and>
      Some (item_types_json (snd (importData data st))) = x_item_types data \<and>
      Some (exchange_rates_json (snd (importData data st))) = x_exchange_rates data) \<and>
   vendor_documents_json (snd (importData data st)) = vendor_documents_json st"
proof (cases "complete data")
  case False
  then show ?thesis by (simp add: importData_incomplete)
next
  case True
  then have "x_quotations data \<noteq> None" "x_quotation_items data \<noteq> None"
    "x_vendors data \<noteq> None" "x_recipients data \<noteq> None" "x_categories data \<noteq> None"
    "x_item_types data \<noteq> None" "x_exchange_rates data \<noteq> None"
    by (simp_all add: complete_def)
  with True show ?thesis by (simp add: importData_complete)
qed

theorem importData_validation_witness:
  "complete exampleBundle \<and>
   success (fst (importData exampleBundle exampleStore)) \<and>
   x_settings exampleBundle = None \<and>
   settings_json (snd (importData exampleBundle exampleStore)) = [] \<and>
   quotations_json (snd (importData exampleBundle exampleStore)) = [] \<and>
   \<not> complete (exampleBundle\<lparr>x_vendors := None\<rparr>) \<and>
   \<not> success (fst (importData (exampleBundle\<lparr>x_vendors := None\<rparr>) exampleStore)) \<and>
   snd (importData (exampleBundle\<lparr>x_vendors := None\<rparr>) exampleStore) = exampleStore"
proof -
  have c: "complete exampleBundle" by (simp add: complete_def exampleBundle_def)
  have n: "\<not> complete (exampleBundle\<lparr>x_vendors := None\<rparr>)" by (simp add: complete_def)
  have x: "x_settings exampleBundle = None" "x_quotations exampleBundle = Some []"
    by (simp_all add: exampleBundle_def)
  from importData_validation [of exampleBundle exampleStore] c x
  have a: "success (fst (importData exampleBundle exampleStore))"
    "settings_json (snd (importData exampleBundle exampleStore)) = []"
    "quotations_json (snd (importData exampleBundle exampleStore)) = []"
    by simp_all
  from importData_validation [of "exampleBundle\<lparr>x_vendors := None\<rparr>" exampleStore] n
  have b: "\<not> success (fst (importData (exampleBundle\<lparr>x_vendors := None\<rparr>) exampleStore))"
    "snd (importData (exampleBundle\<lparr>x_vendors := None\<rparr>) exampleStore) = exampleStore"
    by simp_all
  from c n x(1) a b show ?thesis by simp
qed

text \<open>
  C9 as stated fails for the vendor documents: a bundle without that key is imported
  with success into a store that holds a vendor document, and the document is still
  there afterwards; the collection has not become empty.
\<close>

theorem importData_keeps_vendor_documents:
  "x_vendor_documents exampleBundle = None \<and>
   success (fst (importData exampleBundle exampleStore)) \<and>
   vendor_documents_json (snd (importData exampleBundle exampleStore)) = [exampleDocument] \<and>
   vendor_documents_json (snd (importData exampleBundle exampleStore)) \<noteq> []"
  by (simp add: importData_def exampleBundle_def exampleStore_def)

subsection \<open>Totals and profit\<close>

lemma foldl_add_sum_list:
  "foldl (\<lambda>acc x. acc + f x) a xs = a + sum_list (map f xs)" for a :: real
  by (induction xs arbitrary: a) simp_all

lemma addProfit_profit: "addProfit r a q = a + profit r q"
  by (cases "currency_type q"; cases "vendor_currency_type q")
     (simp_all add: addProfit_def profit_def toIQD_def netTotal_def Let_def foldl_add_sum_list)

lemma totalProfit_sum:
  "totalProfit x qs = sum_list (map (profit (exchangeRate x)) (invoicedQuotations qs))"
proof -
  have "foldl (addProfit r) a xs = a + sum_list (map (profit r) xs)" for r a xs
    by (induction xs arbitrary: a) (simp_all add: addProfit_profit)
  then show ?thesis by (simp add: totalProfit_def)
qed

text \<open>
  C8, as the code has it. With a latest exchange rate \<open>r\<close> other than \<open>0\<close>, the total
  profit of the dashboard is the sum, over the quotations whose status is
  \<open>invoiced\<close>, of the net total in IQD less the vendor cost in IQD, where an amount in
  USD is multiplied by \<open>r\<close> and an amount in IQD is taken as it is. A rate of \<open>0\<close> is
  falsy: the dashboard then multiplies by \<open>1\<close>, as it does without any rate.
\<close>

theorem totalProfit_invoiced:
  "(rate r \<noteq> 0 \<longrightarrow>
      totalProfit (Some r) quotations
        = sum_list (map (profit (rate r)) (filter (\<lambda>q. status q = invoiced) quotations))) \<and>
   (rate r = 0 \<longrightarrow>
      totalProfit (Some r) quotations
        = sum_list (map (profit 1) (filter (\<lambda>q. status q = invoiced) quotations)))"
  by (simp add: totalProfit_sum exchangeRate_def invoicedQuotations_def)

theorem totalProfit_invoiced_witness:
  "rate exampleRate \<noteq> 0 \<and>
   map (profit (rate exampleRate)) (filter (\<lambda>q. status q = invoiced) (getQuotations exampleStore))
     = [300 * 1500 - 100 * 1500] \<and>
   totalProfit (Some exampleRate) (getQuotations exampleStore) = 300000"
  using totalProfit_invoiced [of exampleRate "getQuotations exampleStore"]
  unfolding getQuotations_example
  by (simp add: profit_def netTotal_def toIQD_def Quotation.defs QuotationWithItems.defs
        exampleQuotation_def exampleItem_def exampleRate_def)

text \<open>
  C8 as stated fails at the rate \<open>0\<close>: with that rate stored as the only one, it is the
  latest rate; the invoiced quotation of 300 USD with a vendor cost of 100 USD would
  give \<open>300 * 0 - 100 * 0 = 0\<close>, and the dashboard shows a profit of 200.
\<close>

theorem totalProfit_at_rate_zero:
  "getLatestExchangeRate (\<lambda>d. 0) (exampleStore\<lparr>exchange_rates_json := [exampleRate\<lparr>rate := 0\<rparr>]\<rparr>)
     = Some (exampleRate\<lparr>rate := 0\<rparr>) \<and>
   rate (exampleRate\<lparr>rate := 0\<rparr>) = 0 \<and>
   sum_list (map (profit (rate (exampleRate\<lparr>rate := 0\<rparr>)))
     (filter (\<lambda>q. status q = invoiced) (getQuotations exampleStore))) = 0 \<and>
   totalProfit (Some (exampleRate\<lparr>rate := 0\<rparr>)) (getQuotations exampleStore) = 200 \<and>
   dashboardProfit (\<lambda>d. 0) (exampleStore\<lparr>exchange_rates_json := [exampleRate\<lparr>rate := 0\<rparr>]\<rparr>)
     = 200"
proof -
  let ?z = "exampleRate\<lparr>rate := 0\<rparr>"
  let ?st = "exampleStore\<lparr>exchange_rates_json := [?z]\<rparr>"
  have g: "getLatestExchangeRate (\<lambda>d. 0) ?st = Some ?z"
    by (simp add: getLatestExchangeRate_def)
  have q: "getQuotations ?st = getQuotations exampleStore"
    by (simp add: getQuotations_def)
  have p0: "sum_list (map (profit 0)
      (filter (\<lambda>q. status q = invoiced) (getQuotations exampleStore))) = 0"
    unfolding getQuotations_example
    by (simp add: profit_def netTotal_def toIQD_def Quotation.defs QuotationWithItems.defs
          exampleQuotation_def exampleItem_def)
  have p1: "sum_list (map (profit 1)
      (filter (\<lambda>q. status q = invoiced) (getQuotations exampleStore))) = 200"
    unfolding getQuotations_example
    by (simp add: profit_def netTotal_def toIQD_def Quotation.defs QuotationWithItems.defs
          exampleQuotation_def exampleItem_def)
  have t: "totalProfit (Some ?z) (getQuotations exampleStore) = 200"
    using p1 by (simp add: totalProfit_sum exchangeRate_def invoicedQuotations_def)
  have d: "dashboardProfit (\<lambda>d. 0) ?st = 200"
    using t by (simp only: dashboardProfit_def g q)
  from g p0 t d show ?thesis by simp
qed

text \<open>
  C10. With no exchange rate in the store \<open>getLatestExchangeRate\<close> returns \<open>null\<close>,
  the dashboard then takes the rate \<open>1\<close>, and the total profit is the sum over the
  invoiced quotations of net total less vendor cost, whatever their currencies.
\<close>

theorem totalProfit_without_rate:
  "(exchange_rates_json st = [] \<longrightarrow> getLatestExchangeRate getTime st = None) \<and>
   exchangeRate None = 1 \<and>
   totalProfit None quotations
     = sum_list (map (\<lambda>q. netTotal q - vendor_cost q) (invoicedQuotations quotations)) \<and>
   (exchange_rates_json st = [] \<longrightarrow>
      dashboardProfit getTime st
        = sum_list (map (\<lambda>q. netTotal q - vendor_cost q) (invoicedQuotations (getQuotations st))))"
proof -
  have "profit 1 q = netTotal q - vendor_cost q" for q
    by (cases "currency_type q"; cases "vendor_currency_type q")
       (simp_all add: profit_def toIQD_def)
  then have p: "profit 1 = (\<lambda>q. netTotal q - vendor_cost q)" by (rule ext)
  have e: "exchangeRate None = 1" by (simp add: exchangeRate_def)
  have g: "exchange_rates_json st = [] \<Longrightarrow> getLatestExchangeRate getTime st = None"
    by (simp add: getLatestExchangeRate_def)
  show ?thesis
    by (simp add: g e totalProfit_sum p dashboardProfit_def)
qed

theorem totalProfit_without_rate_witness:
  "exchange_rates_json (exampleStore\<lparr>exchange_rates_json := []\<rparr>) = [] \<and>
   getLatestExchangeRate (\<lambda>d. 0) (exampleStore\<lparr>exchange_rates_json := []\<rparr>) = None \<and>
   dashboardProfit (\<lambda>d. 0) (exampleStore\<lparr>exchange_rates_json := []\<rparr>) = 200"
  using totalProfit_without_rate [of "exampleStore\<lparr>exchange_rates_json := []\<rparr>" "\<lambda>d. 0" "[]"]
  by (simp add: getQuotations_def Let_def invoicedQuotations_def netTotal_def
        Quotation.defs QuotationWithItems.defs example_defs)

text \<open>
  C3 at the page of one quotation. The form subtracts the discount as an amount: items
  of 200, 50 and 60 with a discount of 10 give 300. The page that shows the stored
  quotation takes the same discount as a percentage of the subtotal: it subtracts 31
  and shows 279.
\<close>

theorem page_total_takes_percentage:
  "finalTotal exampleRows 10 = 300 \<and>
   map total_price (quotation_items (hd (getQuotations exampleStore))) = [200, 50, 60] \<and>
   discount (hd (getQuotations exampleStore)) = 10 \<and>
   subtotal (hd (getQuotations exampleStore)) = 310 \<and>
   discountAmount (hd (getQuotations exampleStore)) = 31 \<and>
   page_total (hd (getQuotations exampleStore)) = 279"
  unfolding getQuotations_example
  by (simp add: finalTotal_def total_def exampleRows_def
        page_total_def discountAmount_def subtotal_def
        Quotation.defs QuotationWithItems.defs exampleQuotation_def exampleItem_def)

subsection \<open>Creating lookup entities\<close>

lemma find_none_named:
  "find (\<lambda>x. toLowerCase (n_name x) = toLowerCase name) xs = None \<longleftrightarrow> \<not> named toLowerCase name xs"
  by (auto simp: named_def find_None_iff)

lemma find_some_named:
  "find (\<lambda>x. toLowerCase (n_name x) = toLowerCase name) xs = Some y \<Longrightarrow> named toLowerCase name xs"
  by (auto simp: named_def find_Some_iff)

lemma find_snoc_new:
  "find P xs = None \<Longrightarrow> P y \<Longrightarrow> find P (xs @ [y]) = Some y"
  by (induction xs) (simp_all split: if_splits)

lemma createVendor_twice:
  assumes "toLowerCase name2 = toLowerCase name"
  shows "createVendor toLowerCase u2 a2 b2 name2 (snd (createVendor toLowerCase u1 a1 b1 name st))
           = createVendor toLowerCase u1 a1 b1 name st
         \<and> length (vendors_json (snd (createVendor toLowerCase u1 a1 b1 name st)))
           = length (vendors_json st) + (if named toLowerCase name (vendors_json st) then 0 else 1)"
proof (cases "find (\<lambda>v. toLowerCase (n_name v) = toLowerCase name) (vendors_json st)")
  case None
  then have "\<not> named toLowerCase name (vendors_json st)" by (simp add: find_none_named)
  moreover from None have "find (\<lambda>v. toLowerCase (n_name v) = toLowerCase name)
      (vendors_json st @ [\<lparr>n_id = u1, n_name = name, n_created_at = a1, n_updated_at = b1\<rparr>])
      = Some \<lparr>n_id = u1, n_name = name, n_created_at = a1, n_updated_at = b1\<rparr>"
    by (simp add: find_snoc_new)
  ultimately show ?thesis using None assms by (simp add: createVendor_def Let_def)
next
  case (Some existing)
  then have "named toLowerCase name (vendors_json st)" by (rule find_some_named)
  with Some assms show ?thesis by (simp add: createVendor_def Let_def)
qed

lemma createRecipient_twice:
  assumes "toLowerCase name2 = toLowerCase name"
  shows "createRecipient toLowerCase u2 a2 b2 name2 (snd (createRecipient toLowerCase u1 a1 b1 name st))
           = createRecipient toLowerCase u1 a1 b1 name st
         \<and> length (recipients_json (snd (createRecipient toLowerCase u1 a1 b1 name st)))
           = length (recipients_json st) + (if named toLowerCase name (recipients_json st) then 0 else 1)"
proof (cases "find (\<lambda>v. toLowerCase (n_name v) = toLowerCase name) (recipients_json st)")
  case None
  then have "\<not> named toLowerCase name (recipients_json st)" by (simp add: find_none_named)
  moreover from None have "find (\<lambda>v. toLowerCase (n_name v) = toLowerCase name)
      (recipients_json st @ [\<lparr>n_id = u1, n_name = name, n_created_at = a1, n_updated_at = b1\<rparr>])
      = Some \<lparr>n_id = u1, n_name = name, n_created_at = a1, n_updated_at = b1\<rparr>"
    by (simp add: find_snoc_new)
  ultimately show ?thesis using None assms by (simp add: createRecipient_def Let_def)
next
  case (Some existing)
  then have "named toLowerCase name (recipients_json st)" by (rule find_some_named)
  with Some assms show ?thesis by (simp add: createRecipient_def Let_def)
qed

lemma createCategory_twice:
  assumes "toLowerCase name2 = toLowerCase name"
  shows "createCategory toLowerCase u2 a2 b2 name2 (snd (createCategory toLowerCase u1 a1 b1 name st))
           = createCategory toLowerCase u1 a1 b1 name st
         \<and> length (categories_json (snd (createCategory toLowerCase u1 a1 b1 name st)))
           = length (categories_json st) + (if named toLowerCase name (categories_json st) then 0 else 1)"
proof (cases "find (\<lambda>v. toLowerCase (n_name v) = toLowerCase name) (categories_json st)")
  case None
  then have "\<not> named toLowerCase name (categories_json st)" by (simp add: find_none_named)
  moreover from None have "find (\<lambda>v. toLowerCase (n_name v) = toLowerCase name)
      (categories_json st @ [\<lparr>n_id = u1, n_name = name, n_created_at = a1, n_updated_at = b1\<rparr>])
      = Some \<lparr>n_id = u1, n_name = name, n_created_at = a1, n_updated_at = b1\<rparr>"
    by (simp add: find_snoc_new)
  ultimately show ?thesis using None assms by (simp add: createCategory_def Let_def)
next
  case (Some existing)
  then have "named toLowerCase name (categories_json st)" by (rule find_some_named)
  with Some assms show ?thesis by (simp add: createCategory_def Let_def)
qed

lemma createItemType_twice:
  assumes "toLowerCase name2 = toLowerCase name"
  shows "createItemType toLowerCase u2 a2 b2 name2 (snd (createItemType toLowerCase u1 a1 b1 name st))
           = createItemType toLowerCase u1 a1 b1 name st
         \<and> length (item_types_json (snd (createItemType toLowerCase u1 a1 b1 name st)))
           = length (item_types_json st) + (if named toLowerCase name (item_types_json st) then 0 else 1)"
proof (cases "find (\<lambda>v. toLowerCase (n_name v) = toLowerCase name) (item_types_json st)")
  case None
  then have "\<not> named toLowerCase name (item_types_json st)" by (simp add: find_none_named)
  moreover from None have "find (\<lambda>v. toLowerCase (n_name v) = toLowerCase name)
      (item_types_json st @ [\<lparr>n_id = u1, n_name = name, n_created_at = a1, n_updated_at = b1\<rparr>])
      = Some \<lparr>n_id = u1, n_name = name, n_created_at = a1, n_updated_at = b1\<rparr>"
    by (simp add: find_snoc_new)
  ultimately show ?thesis using None assms by (simp add: createItemType_def Let_def)
next
  case (Some existing)
  then have "named toLowerCase name (item_types_json st)" by (rule find_some_named)
  with Some assms show ?thesis by (simp add: createItemType_def Let_def)
qed


text \<open>
  C6, as the code has it. When \<open>createVendor\<close> is called with a name and then with a
  name that has the same lower-case form, the second call returns a record with the
  identifier the first call returned, and after both calls the vendor collection is
  longer by one if no vendor had the name before the first call, and as long as it was
  if one had. The same holds of \<open>createRecipient\<close>, \<open>createCategory\<close> and
  \<open>createItemType\<close>. A case variation of a name is a name with the same lower-case
  form under \<open>toLowerCase\<close>, which is any function here, so also the one of
  JavaScript with its non-ASCII letters.
\<close>

theorem create_or_reuse:
  "toLowerCase name2 = toLowerCase name \<Longrightarrow>
   n_id (fst (createVendor toLowerCase u2 a2 b2 name2 (snd (createVendor toLowerCase u1 a1 b1 name st))))
     = n_id (fst (createVendor toLowerCase u1 a1 b1 name st)) \<and>
   length (vendors_json (snd (createVendor toLowerCase u2 a2 b2 name2 (snd (createVendor toLowerCase u1 a1 b1 name st)))))
     = length (vendors_json st) + (if named toLowerCase name (vendors_json st) then 0 else 1) \<and>
   n_id (fst (createRecipient toLowerCase u2 a2 b2 name2 (snd (createRecipient toLowerCase u1 a1 b1 name st))))
     = n_id (fst (createRecipient toLowerCase u1 a1 b1 name st)) \<and>
   length (recipients_json (snd (createRecipient toLowerCase u2 a2 b2 name2 (snd (createRecipient toLowerCase u1 a1 b1 name st)))))
     = length (recipients_json st) + (if named toLowerCase name (recipients_json st) then 0 else 1) \<and>
   n_id (fst (createCategory toLowerCase u2 a2 b2 name2 (snd (createCategory toLowerCase u1 a1 b1 name st))))
     = n_id (fst (createCategory toLowerCase u1 a1 b1 name st)) \<and>
   length (categories_json (snd (createCategory toLowerCase u2 a2 b2 name2 (snd (createCategory toLowerCase u1 a1 b1 name st)))))
     = length (categories_json st) + (if named toLowerCase name (categories_json st) then 0 else 1) \<and>
   n_id (fst (createItemType toLowerCase u2 a2 b2 name2 (snd (createItemType toLowerCase u1 a1 b1 name st))))
     = n_id (fst (createItemType toLowerCase u1 a1 b1 name st)) \<and>
   length (item_types_json (snd (createItemType toLowerCase u2 a2 b2 name2 (snd (createItemType toLowerCase u1 a1 b1 name st)))))
     = length (item_types_json st) + (if named toLowerCase name (item_types_json st) then 0 else 1)"
  by (simp only: createVendor_twice createRecipient_twice createCategory_twice
        createItemType_twice simp_thms)

lemma lower_examples: "asciiLower ''ACME'' = ''acme''" "asciiLower ''acme'' = ''acme''"
  "asciiLower ''Acme'' = ''acme''" "asciiLower ''Zain'' = ''zain''" "asciiLower ''ZAIN'' = ''zain''"
  "asciiLower ''Hardware'' = ''hardware''"
  by code_simp+

theorem create_or_reuse_witness:
  "asciiLower ''ZAIN'' = asciiLower ''Zain'' \<and>
   \<not> named asciiLower ''Zain'' (vendors_json exampleStore) \<and>
   length (vendors_json exampleStore) = 1 \<and>
   n_id (fst (createVendor asciiLower ''u1'' ''t1'' ''t2'' ''Zain'' exampleStore)) = ''u1'' \<and>
   n_id (fst (createVendor asciiLower ''u2'' ''t3'' ''t4'' ''ZAIN''
                (snd (createVendor asciiLower ''u1'' ''t1'' ''t2'' ''Zain'' exampleStore)))) = ''u1'' \<and>
   length (vendors_json (snd (createVendor asciiLower ''u2'' ''t3'' ''t4'' ''ZAIN''
                (snd (createVendor asciiLower ''u1'' ''t1'' ''t2'' ''Zain'' exampleStore))))) = 2"
proof -
  have l: "asciiLower ''ZAIN'' = asciiLower ''Zain''" by (simp add: lower_examples)
  have n: "\<not> named asciiLower ''Zain'' (vendors_json exampleStore)"
    by (simp add: named_def exampleStore_def lower_examples)
  have f: "n_id (fst (createVendor asciiLower ''u1'' ''t1'' ''t2'' ''Zain'' exampleStore)) = ''u1''"
    by (simp add: createVendor_def Let_def exampleStore_def lower_examples)
  have len: "length (vendors_json exampleStore) = 1" by (simp add: exampleStore_def)
  from create_or_reuse [of asciiLower "''ZAIN''" "''Zain''" "''u2''" "''t3''" "''t4''"
      "''u1''" "''t1''" "''t2''" exampleStore, OF l]
    n f len l
  show ?thesis by simp
qed

text \<open>
  C6 as stated fails when the name is already stored: the store holds the vendor
  \<open>Acme\<close>; \<open>createVendor\<close> with \<open>ACME\<close> and then with \<open>acme\<close> returns that vendor
  twice, and the collection has one record before and one record after.
\<close>

theorem create_existing_adds_nothing:
  "asciiLower ''acme'' = asciiLower ''ACME'' \<and>
   length (vendors_json exampleStore) = 1 \<and>
   n_id (fst (createVendor asciiLower ''u1'' ''t1'' ''t2'' ''ACME'' exampleStore)) = ''v1'' \<and>
   n_id (fst (createVendor asciiLower ''u2'' ''t3'' ''t4'' ''acme''
                (snd (createVendor asciiLower ''u1'' ''t1'' ''t2'' ''ACME'' exampleStore)))) = ''v1'' \<and>
   length (vendors_json (snd (createVendor asciiLower ''u2'' ''t3'' ''t4'' ''acme''
                (snd (createVendor asciiLower ''u1'' ''t1'' ''t2'' ''ACME'' exampleStore))))) = 1"
  by (simp add: createVendor_def Let_def exampleStore_def lower_examples)

subsection \<open>The quotation number\<close>


















subsection \<open>The report by item type\<close>
























end
